theory Spec2Isabelle
  imports Main "HOL-Library.Sublist"
begin

section \<open>The Sphinx configuration module \<^verbatim>\<open>source/conf.py\<close>\<close>

text \<open>
  The module is a straight-line sequence of twelve assignment statements. Every right-hand
  side is a display of string literals: a string, a list of strings, or a dictionary from a
  string to a string. Sphinx executes the module once in a namespace it has prepared and then
  reads the configuration values out of the resulting namespace.
\<close>

subsection \<open>Values, expressions, statements\<close>

text \<open>
  The Python values that occur: \<^verbatim>\<open>str\<close>, \<^verbatim>\<open>list\<close> and \<^verbatim>\<open>dict\<close>. A dictionary keeps
  its entries in insertion order, so it is an association list.
\<close>

datatype pyval =
    Str string
  | ListV "pyval list"
  | DictV "(pyval \<times> pyval) list"

text \<open>
  The right-hand side of an assignment is either a literal display, which evaluates to its
  value whatever the namespace holds, or a reference to a name, which is looked up in the
  namespace (and raises \<^verbatim>\<open>NameError\<close> when the name is unbound).
\<close>

datatype expr =
    Lit pyval
  | Name string

datatype stmt = Assign string expr

type_synonym namespace = "string \<rightharpoonup> pyval"

datatype error = NameError string

subsection \<open>The configuration values, in source order\<close>

definition project :: pyval where
  "project = Str ''OLSRT''"

definition copyright :: pyval where
  "copyright = Str ''2025, OverLab Group''"

definition author :: pyval where
  "author = Str ''OverLab Group''"

definition release :: pyval where
  "release = Str ''v1.0.1''"

definition extensions :: pyval where
  "extensions = ListV
     [Str ''breathe'',
      Str ''sphinx.ext.todo'',
      Str ''sphinx.ext.coverage'',
      Str ''sphinx.ext.viewcode'',
      Str ''sphinx.ext.intersphinx'']"

definition templates_path :: pyval where
  "templates_path = ListV [Str ''_templates'']"

definition exclude_patterns :: pyval where
  "exclude_patterns = ListV []"

definition html_theme :: pyval where
  "html_theme = Str ''furo''"

definition html_static_path :: pyval where
  "html_static_path = ListV [Str ''_static'']"

definition html_title :: pyval where
  "html_title = Str ''OLSRT Documention''"

definition breathe_projects :: pyval where
  "breathe_projects = DictV [(Str ''OLSRT'', Str ''./xml'')]"

definition breathe_default_project :: pyval where
  "breathe_default_project = Str ''OLSRT''"

text \<open>The module body: the twelve assignments as the file lists them.\<close>

definition conf_py :: "stmt list" where
  "conf_py =
     [Assign ''project'' (Lit project),
      Assign ''copyright'' (Lit copyright),
      Assign ''author'' (Lit author),
      Assign ''release'' (Lit release),
      Assign ''extensions'' (Lit extensions),
      Assign ''templates_path'' (Lit templates_path),
      Assign ''exclude_patterns'' (Lit exclude_patterns),
      Assign ''html_theme'' (Lit html_theme),
      Assign ''html_static_path'' (Lit html_static_path),
      Assign ''html_title'' (Lit html_title),
      Assign ''breathe_projects'' (Lit breathe_projects),
      Assign ''breathe_default_project'' (Lit breathe_default_project)]"

subsection \<open>Executing the module\<close>

fun eval_expr :: "namespace \<Rightarrow> expr \<Rightarrow> error + pyval" where
  "eval_expr ns (Lit v) = Inr v"
| "eval_expr ns (Name x) = (case ns x of None \<Rightarrow> Inl (NameError x) | Some v \<Rightarrow> Inr v)"

fun exec_stmt :: "namespace \<Rightarrow> stmt \<Rightarrow> error + namespace" where
  "exec_stmt ns (Assign x e) =
     (case eval_expr ns e of Inl err \<Rightarrow> Inl err | Inr v \<Rightarrow> Inr (ns(x \<mapsto> v)))"

text \<open>Statements run in order; the first exception ends the run.\<close>

fun exec_module :: "namespace \<Rightarrow> stmt list \<Rightarrow> error + namespace" where
  "exec_module ns [] = Inr ns"
| "exec_module ns (s # ss) =
     (case exec_stmt ns s of Inl err \<Rightarrow> Inl err | Inr ns' \<Rightarrow> exec_module ns' ss)"

text \<open>
  What the documentation builder reads for a configuration key after executing the module
  in the namespace \<open>ns\<close>: the value bound to the key, or nothing when the run failed or the
  key is unbound.
\<close>

definition config_value :: "namespace \<Rightarrow> string \<Rightarrow> pyval option" where
  "config_value ns key = (case exec_module ns conf_py of Inl err \<Rightarrow> None | Inr ns' \<Rightarrow> ns' key)"

subsection \<open>Syntactic observations on a module body\<close>

fun target :: "stmt \<Rightarrow> string" where
  "target (Assign x e) = x"

fun rhs :: "stmt \<Rightarrow> expr" where
  "rhs (Assign x e) = e"

fun is_literal :: "expr \<Rightarrow> bool" where
  "is_literal (Lit v) = True"
| "is_literal (Name x) = False"

text \<open>The value a literal denotes; a name denotes none by itself.\<close>

fun literal_value :: "expr \<Rightarrow> pyval option" where
  "literal_value (Lit v) = Some v"
| "literal_value (Name x) = None"

subsection \<open>Python operations on the values\<close>

text \<open>\<^verbatim>\<open>isinstance(v, str)\<close>\<close>

fun is_str :: "pyval \<Rightarrow> bool" where
  "is_str (Str s) = True"
| "is_str v = False"

text \<open>\<^verbatim>\<open>list(d.keys())\<close> of a dictionary, \<^verbatim>\<open>k in d\<close> and \<^verbatim>\<open>d.get(k)\<close>; the list elements of a list.\<close>

fun dict_keys :: "pyval \<Rightarrow> pyval list" where
  "dict_keys (DictV kvs) = map fst kvs"
| "dict_keys v = []"

fun dict_items :: "pyval \<Rightarrow> (pyval \<times> pyval) list" where
  "dict_items (DictV kvs) = kvs"
| "dict_items v = []"

fun dict_get :: "pyval \<Rightarrow> pyval \<Rightarrow> pyval option" where
  "dict_get (DictV kvs) k = map_of kvs k"
| "dict_get v k = None"

fun list_elems :: "pyval \<Rightarrow> pyval list" where
  "list_elems (ListV vs) = vs"
| "list_elems v = []"

text \<open>\<^verbatim>\<open>s.startswith(p)\<close> on two strings.\<close>

fun startswith :: "pyval \<Rightarrow> pyval \<Rightarrow> bool" where
  "startswith (Str s) (Str p) = prefix p s"
| "startswith v w = False"

section \<open>The result of executing the module\<close>

lemma exec_conf_py:
  "exec_module ns conf_py = Inr (ns(
     ''project'' \<mapsto> project,
     ''copyright'' \<mapsto> copyright,
     ''author'' \<mapsto> author,
     ''release'' \<mapsto> release,
     ''extensions'' \<mapsto> extensions,
     ''templates_path'' \<mapsto> templates_path,
     ''exclude_patterns'' \<mapsto> exclude_patterns,
     ''html_theme'' \<mapsto> html_theme,
     ''html_static_path'' \<mapsto> html_static_path,
     ''html_title'' \<mapsto> html_title,
     ''breathe_projects'' \<mapsto> breathe_projects,
     ''breathe_default_project'' \<mapsto> breathe_default_project))"
  by (simp add: conf_py_def)

lemma config_value_conf_py:
  "config_value ns key =
     (ns(''project'' \<mapsto> project,
         ''copyright'' \<mapsto> copyright,
         ''author'' \<mapsto> author,
         ''release'' \<mapsto> release,
         ''extensions'' \<mapsto> extensions,
         ''templates_path'' \<mapsto> templates_path,
         ''exclude_patterns'' \<mapsto> exclude_patterns,
         ''html_theme'' \<mapsto> html_theme,
         ''html_static_path'' \<mapsto> html_static_path,
         ''html_title'' \<mapsto> html_title,
         ''breathe_projects'' \<mapsto> breathe_projects,
         ''breathe_default_project'' \<mapsto> breathe_default_project)) key"
  by (simp only: config_value_def exec_conf_py sum.case)

lemma targets_conf_py:
  "map target conf_py =
     [''project'', ''copyright'', ''author'', ''release'', ''extensions'',
      ''templates_path'', ''exclude_patterns'', ''html_theme'', ''html_static_path'',
      ''html_title'', ''breathe_projects'', ''breathe_default_project'']"
  by (simp add: conf_py_def)

section \<open>Project identity\<close>

text \<open>
  Claim C4. The four project-identity values are plain strings: after the module has run,
  from whatever namespace, \<^verbatim>\<open>project\<close> is \<^verbatim>\<open>'OLSRT'\<close>, \<^verbatim>\<open>copyright\<close> is
  \<^verbatim>\<open>'2025, OverLab Group'\<close>, \<^verbatim>\<open>author\<close> is \<^verbatim>\<open>'OverLab Group'\<close> and \<^verbatim>\<open>release\<close> is
  \<^verbatim>\<open>'v1.0.1'\<close>, and each of the four is a \<^verbatim>\<open>str\<close>.
\<close>

theorem project_identity_plain_strings:
  "config_value ns ''project'' = Some (Str ''OLSRT'')
   \<and> config_value ns ''copyright'' = Some (Str ''2025, OverLab Group'')
   \<and> config_value ns ''author'' = Some (Str ''OverLab Group'')
   \<and> config_value ns ''release'' = Some (Str ''v1.0.1'')
   \<and> is_str project \<and> is_str copyright \<and> is_str author \<and> is_str release"
  by (simp add: config_value_conf_py project_def copyright_def author_def release_def)

section \<open>Extensions\<close>

text \<open>
  Claim C2. \<^verbatim>\<open>extensions\<close> is the ordered list of exactly five plugin identifiers
  \<^verbatim>\<open>'breathe'\<close>, \<^verbatim>\<open>'sphinx.ext.todo'\<close>, \<^verbatim>\<open>'sphinx.ext.coverage'\<close>, \<^verbatim>\<open>'sphinx.ext.viewcode'\<close>,
  \<^verbatim>\<open>'sphinx.ext.intersphinx'\<close>: its elements are these five in this order, the set of its
  elements is the set of the five recognized identifiers (so every element is recognized),
  and each of them occurs exactly once.
\<close>

theorem extensions_five_recognized_once:
  "config_value ns ''extensions'' = Some extensions
   \<and> list_elems extensions =
       [Str ''breathe'', Str ''sphinx.ext.todo'', Str ''sphinx.ext.coverage'',
        Str ''sphinx.ext.viewcode'', Str ''sphinx.ext.intersphinx'']
   \<and> length (list_elems extensions) = 5
   \<and> set (list_elems extensions) =
       {Str ''breathe'', Str ''sphinx.ext.todo'', Str ''sphinx.ext.coverage'',
        Str ''sphinx.ext.viewcode'', Str ''sphinx.ext.intersphinx''}
   \<and> distinct (list_elems extensions)
   \<and> count_list (list_elems extensions) (Str ''breathe'') = 1
   \<and> count_list (list_elems extensions) (Str ''sphinx.ext.todo'') = 1
   \<and> count_list (list_elems extensions) (Str ''sphinx.ext.coverage'') = 1
   \<and> count_list (list_elems extensions) (Str ''sphinx.ext.viewcode'') = 1
   \<and> count_list (list_elems extensions) (Str ''sphinx.ext.intersphinx'') = 1"
  by (simp add: config_value_conf_py extensions_def)

text \<open>
  Claim C10. \<^verbatim>\<open>'breathe'\<close> is the element at index 0 of \<^verbatim>\<open>extensions\<close>; the rest of the
  list is four identifiers that all start with \<^verbatim>\<open>'sphinx.ext.'\<close>, which \<^verbatim>\<open>'breathe'\<close>
  does not, so the API-doc bridge is listed before the four \<^verbatim>\<open>sphinx.ext.*\<close> extensions.
\<close>

theorem breathe_listed_first:
  "list_elems extensions ! 0 = Str ''breathe''
   \<and> hd (list_elems extensions) = Str ''breathe''
   \<and> length (tl (list_elems extensions)) = 4
   \<and> list_all (\<lambda>e. startswith e (Str ''sphinx.ext.'')) (tl (list_elems extensions))
   \<and> \<not> startswith (Str ''breathe'') (Str ''sphinx.ext.'')
   \<and> config_value ns ''extensions'' = Some extensions"
  by (simp add: config_value_conf_py extensions_def)

section \<open>Path settings\<close>

text \<open>
  Claim C5. The exclusion-pattern setting is empty: \<^verbatim>\<open>exclude_patterns\<close> is the empty list.
\<close>

theorem exclude_patterns_empty:
  "config_value ns ''exclude_patterns'' = Some (ListV [])
   \<and> exclude_patterns = ListV []
   \<and> list_elems exclude_patterns = []"
  by (simp add: config_value_conf_py exclude_patterns_def)

text \<open>
  Claim C6. \<^verbatim>\<open>templates_path\<close> is the one-element list \<^verbatim>\<open>['_templates']\<close> and
  \<^verbatim>\<open>html_static_path\<close> is the one-element list \<^verbatim>\<open>['_static']\<close>; the single element of
  each is a string.
\<close>

theorem path_settings_singletons:
  "config_value ns ''templates_path'' = Some (ListV [Str ''_templates''])
   \<and> config_value ns ''html_static_path'' = Some (ListV [Str ''_static''])
   \<and> length (list_elems templates_path) = 1
   \<and> length (list_elems html_static_path) = 1
   \<and> is_str (hd (list_elems templates_path))
   \<and> is_str (hd (list_elems html_static_path))"
  by (simp add: config_value_conf_py templates_path_def html_static_path_def)

section \<open>HTML output\<close>

text \<open>
  Claim C9. \<^verbatim>\<open>html_theme\<close> is \<^verbatim>\<open>'furo'\<close> and \<^verbatim>\<open>html_title\<close> is the literal
  \<^verbatim>\<open>'OLSRT Documention'\<close>, which is not the string \<^verbatim>\<open>'OLSRT Documentation'\<close>.
\<close>

theorem html_theme_and_title:
  "config_value ns ''html_theme'' = Some (Str ''furo'')
   \<and> config_value ns ''html_title'' = Some (Str ''OLSRT Documention'')
   \<and> html_title \<noteq> Str ''OLSRT Documentation''"
  by (simp add: config_value_conf_py html_theme_def html_title_def)

section \<open>The Breathe bridge\<close>

text \<open>
  Claim C3. \<^verbatim>\<open>breathe_projects\<close> is a dictionary with exactly one entry, which maps the
  project name \<^verbatim>\<open>"OLSRT"\<close> to the directory \<^verbatim>\<open>"./xml"\<close>.
\<close>

theorem breathe_projects_single_entry:
  "config_value ns ''breathe_projects'' = Some (DictV [(Str ''OLSRT'', Str ''./xml'')])
   \<and> dict_items breathe_projects = [(Str ''OLSRT'', Str ''./xml'')]
   \<and> length (dict_items breathe_projects) = 1
   \<and> dict_get breathe_projects (Str ''OLSRT'') = Some (Str ''./xml'')"
  by (simp add: config_value_conf_py breathe_projects_def)

text \<open>
  Claim C1. \<^verbatim>\<open>breathe_default_project\<close> is \<^verbatim>\<open>"OLSRT"\<close>, and that string is a key of
  \<^verbatim>\<open>breathe_projects\<close>: the default-project pointer points into the mapping (looking it
  up there finds a directory).
\<close>

theorem default_project_is_key:
  "config_value ns ''breathe_default_project'' = Some (Str ''OLSRT'')
   \<and> config_value ns ''breathe_projects'' = Some breathe_projects
   \<and> Str ''OLSRT'' \<in> set (dict_keys breathe_projects)
   \<and> breathe_default_project \<in> set (dict_keys breathe_projects)
   \<and> dict_get breathe_projects breathe_default_project \<noteq> None"
  by (simp add: config_value_conf_py breathe_projects_def breathe_default_project_def)

section \<open>Invariants of the whole module\<close>

text \<open>
  Claim C8. Name consistency of the configuration record: after the module has run, from
  whatever namespace, the value of \<^verbatim>\<open>project\<close> is the string \<^verbatim>\<open>'OLSRT'\<close>, the value of
  \<^verbatim>\<open>breathe_default_project\<close> is that same string, the value of \<^verbatim>\<open>breathe_projects\<close> is a
  dictionary whose key list is exactly that one string, and the value of \<^verbatim>\<open>html_title\<close>
  starts with that string.
\<close>

theorem name_consistency:
  "config_value ns ''project'' = Some (Str ''OLSRT'')
   \<and> config_value ns ''breathe_default_project'' = Some (Str ''OLSRT'')
   \<and> (\<exists>d. config_value ns ''breathe_projects'' = Some d \<and> dict_keys d = [Str ''OLSRT''])
   \<and> (\<exists>t. config_value ns ''html_title'' = Some t \<and> startswith t (Str ''OLSRT''))
   \<and> project = Str ''OLSRT''
   \<and> breathe_default_project = project
   \<and> dict_keys breathe_projects = [project]
   \<and> startswith html_title project"
  by (simp add: config_value_conf_py project_def breathe_default_project_def
      breathe_projects_def html_title_def)

text \<open>
  Claim C7. The configuration is a constant record. The body consists of assignments only;
  the twelve assigned names are pairwise different, so every name is bound exactly once
  and never rebound; every right-hand side is a literal; the run never raises; after the
  run every configuration key holds the literal of its one binding, whatever the namespace
  the run started from; hence two runs, from any two namespaces, agree on every
  configuration key.
\<close>

theorem configuration_is_constant:
  "length conf_py = 12
   \<and> distinct (map target conf_py)
   \<and> list_all is_literal (map rhs conf_py)
   \<and> (\<exists>ns'. exec_module ns conf_py = Inr ns')
   \<and> map (\<lambda>s. config_value ns (target s)) conf_py = map (\<lambda>s. literal_value (rhs s)) conf_py
   \<and> map (config_value ns1) (map target conf_py) = map (config_value ns2) (map target conf_py)"
proof -
  have once: "distinct (map target conf_py)"
    by (simp add: targets_conf_py)
  have lits: "list_all is_literal (map rhs conf_py)"
    by (simp add: conf_py_def)
  have runs: "\<exists>ns'. exec_module ns conf_py = Inr ns'"
    by (simp add: exec_conf_py)
  have bound: "map (\<lambda>s. config_value ns (target s)) conf_py
                 = map (\<lambda>s. literal_value (rhs s)) conf_py" for ns
    by (simp add: config_value_conf_py) (simp add: conf_py_def)
  have agree: "map (config_value ns1) (map target conf_py)
                 = map (config_value ns2) (map target conf_py)"
    using bound [of ns1] bound [of ns2] by (simp add: comp_def)
  show ?thesis
    using once lits runs bound [of ns] agree by (simp add: conf_py_def)
qed

end
